theory Spec2Isabelle
  imports Main
begin

section \<open>The Result type of tiny-result\<close>

text \<open>
  \<^verbatim>\<open>src/core.ts\<close> declares \<^verbatim>\<open>type Result<T, E> = Ok<T> | Err<E>\<close>: a union of two
  classes. \<^verbatim>\<open>Ok<T>\<close> holds the field \<^verbatim>\<open>value\<close>, \<^verbatim>\<open>Err<E>\<close> holds the field
  \<^verbatim>\<open>error\<close>. The union is the datatype below; the selectors are the two payload
  fields (a selector applied to the other variant is unspecified, as the field is
  absent there, and no function of this theory reads it on that side).
\<close>

datatype ('t, 'e) Result = Ok (Ok_value: 't) | Err (Err_error: 'e)

text \<open>
  The discriminant fields: \<^verbatim>\<open>readonly ok = true as const; readonly err = false as const\<close>
  in class \<^verbatim>\<open>Ok\<close>, and the opposite literals in class \<^verbatim>\<open>Err\<close>. They are fixed by
  the class, so each is a function of the variant.
\<close>

fun Result_ok :: "('t, 'e) Result \<Rightarrow> bool" where
  "Result_ok (Ok _) = True"
| "Result_ok (Err _) = False"

fun Result_err :: "('t, 'e) Result \<Rightarrow> bool" where
  "Result_err (Ok _) = False"
| "Result_err (Err _) = True"

text \<open>The constructor functions \<^verbatim>\<open>ok\<close> and \<^verbatim>\<open>err\<close>.\<close>

definition ok :: "'t \<Rightarrow> ('t, 'e) Result" where
  "ok v = Ok v"

definition err :: "'e \<Rightarrow> ('t, 'e) Result" where
  "err error = Err error"

text \<open>The free type guards read the discriminant fields.\<close>

definition isOk :: "('t, 'e) Result \<Rightarrow> bool" where
  "isOk result = Result_ok result"

definition isErr :: "('t, 'e) Result \<Rightarrow> bool" where
  "isErr result = Result_err result"

subsection \<open>Thrown values and callbacks\<close>

text \<open>
  \<^verbatim>\<open>new Error(message)\<close>: the only value the library itself builds and throws. A method
  that runs no host code returns \<open>JsError + 'a\<close>, with \<open>Inl\<close> for the thrown error.
\<close>

datatype JsError = Error string

text \<open>
  What leaves a method that also runs host code: the \<^verbatim>\<open>Error\<close> object the library
  built, or whatever value the host code threw.
\<close>

datatype 'x JsThrown = ErrorObject JsError | HostValue 'x

text \<open>
  A callback handed to the library is arbitrary host code: run on the program state
  \<open>'s\<close> it either throws a value of type \<open>'x\<close> or returns a value of type \<open>'a\<close>,
  and leaves a new state. Whether and how often the library invokes a callback is
  then visible in the outcome and in the state.
\<close>

type_synonym ('a, 'x, 's) js = "'s \<Rightarrow> ('x + 'a) \<times> 's"

definition js_return :: "'a \<Rightarrow> ('a, 'x, 's) js" where
  "js_return a = (\<lambda>s. (Inr a, s))"

definition js_bind :: "('a, 'x, 's) js \<Rightarrow> ('a \<Rightarrow> ('b, 'x, 's) js) \<Rightarrow> ('b, 'x, 's) js" where
  "js_bind m k = (\<lambda>s. case m s of (Inl x, s') \<Rightarrow> (Inl x, s') | (Inr a, s') \<Rightarrow> k a s')"

definition js_catch :: "('a, 'x, 's) js \<Rightarrow> ('x \<Rightarrow> ('a, 'y, 's) js) \<Rightarrow> ('a, 'y, 's) js" where
  "js_catch m h = (\<lambda>s. case m s of (Inl x, s') \<Rightarrow> h x s' | (Inr a, s') \<Rightarrow> (Inr a, s'))"

text \<open>A pure function as a callback: it returns its value and touches nothing.\<close>

definition pure :: "('a \<Rightarrow> 'b) \<Rightarrow> 'a \<Rightarrow> ('b, 'x, 's) js" where
  "pure f a = js_return (f a)"

subsection \<open>Class \<^verbatim>\<open>Ok\<close>\<close>

text \<open>
  Each method takes its receiver \<open>this\<close> first; a parameter the source names with a
  leading underscore (\<^verbatim>\<open>_fn\<close>, unused) is written \<open>unused_fn\<close>. \<^verbatim>\<open>return this as Result<T, F>\<close> returns
  the receiver under another static type; the model rebuilds the same variant around the
  same payload, which is the only way to change the type parameter in HOL.
\<close>

definition Ok_map :: "('t, 'e) Result \<Rightarrow> ('t \<Rightarrow> ('u, 'x, 's) js) \<Rightarrow> (('u, 'f) Result, 'x, 's) js" where
  "Ok_map this fn = js_bind (fn (Ok_value this)) (\<lambda>u. js_return (Ok u))"

definition Ok_mapErr :: "('t, 'e) Result \<Rightarrow> ('e \<Rightarrow> ('f, 'x, 's) js) \<Rightarrow> (('t, 'f) Result, 'x, 's) js" where
  "Ok_mapErr this unused_fn = js_return (Ok (Ok_value this))"

definition Ok_andThen :: "('t, 'e) Result \<Rightarrow> ('t \<Rightarrow> (('u, 'f) Result, 'x, 's) js) \<Rightarrow> (('u, 'f) Result, 'x, 's) js" where
  "Ok_andThen this fn = fn (Ok_value this)"

definition Ok_orElse :: "('t, 'e) Result \<Rightarrow> ('e \<Rightarrow> (('t, 'f) Result, 'x, 's) js) \<Rightarrow> (('t, 'f) Result, 'x, 's) js" where
  "Ok_orElse this unused_fn = js_return (Ok (Ok_value this))"

definition Ok_match :: "('t, 'e) Result \<Rightarrow> ('t \<Rightarrow> ('u, 'x, 's) js) \<Rightarrow> ('e \<Rightarrow> ('u, 'x, 's) js) \<Rightarrow> ('u, 'x, 's) js" where
  "Ok_match this matcher_ok matcher_err = matcher_ok (Ok_value this)"

definition Ok_unwrap :: "('t, 'e) Result \<Rightarrow> ('t, 'x JsThrown, 's) js" where
  "Ok_unwrap this = js_return (Ok_value this)"

definition Ok_unwrapOr :: "('t, 'e) Result \<Rightarrow> 't \<Rightarrow> JsError + 't" where
  "Ok_unwrapOr this unused_defaultValue = Inr (Ok_value this)"

definition Ok_unwrapErr :: "('t, 'e) Result \<Rightarrow> JsError + 'e" where
  "Ok_unwrapErr this = Inl (Error ''Called unwrapErr on Ok'')"

definition Ok_isOk :: "('t, 'e) Result \<Rightarrow> bool" where
  "Ok_isOk this = True"

definition Ok_isErr :: "('t, 'e) Result \<Rightarrow> bool" where
  "Ok_isErr this = False"

subsection \<open>Class \<^verbatim>\<open>Err\<close>\<close>

definition Err_map :: "('t, 'e) Result \<Rightarrow> ('t \<Rightarrow> ('u, 'x, 's) js) \<Rightarrow> (('u, 'e) Result, 'x, 's) js" where
  "Err_map this unused_fn = js_return (Err (Err_error this))"

definition Err_mapErr :: "('t, 'e) Result \<Rightarrow> ('e \<Rightarrow> ('f, 'x, 's) js) \<Rightarrow> (('u, 'f) Result, 'x, 's) js" where
  "Err_mapErr this fn = js_bind (fn (Err_error this)) (\<lambda>f. js_return (Err f))"

definition Err_andThen :: "('t, 'e) Result \<Rightarrow> ('t \<Rightarrow> (('u, 'e) Result, 'x, 's) js) \<Rightarrow> (('u, 'e) Result, 'x, 's) js" where
  "Err_andThen this unused_fn = js_return (Err (Err_error this))"

definition Err_orElse :: "('t, 'e) Result \<Rightarrow> ('e \<Rightarrow> (('u, 'f) Result, 'x, 's) js) \<Rightarrow> (('u, 'f) Result, 'x, 's) js" where
  "Err_orElse this fn = fn (Err_error this)"

definition Err_match :: "('t, 'e) Result \<Rightarrow> ('t \<Rightarrow> ('u, 'x, 's) js) \<Rightarrow> ('e \<Rightarrow> ('u, 'x, 's) js) \<Rightarrow> ('u, 'x, 's) js" where
  "Err_match this matcher_ok matcher_err = matcher_err (Err_error this)"

text \<open>
  \<^verbatim>\<open>Err.unwrap\<close> throws \<^verbatim>\<open>new Error(m)\<close>, where \<open>m\<close> is a template literal: the text
  \<^verbatim>\<open>Called unwrap on Err: \<close> followed by \<^verbatim>\<open>${this.error}\<close>. The template literal is
  evaluated first: it converts the payload with the host's string conversion, which
  depends on the payload and can run the payload's own \<^verbatim>\<open>toString\<close>. The conversion is
  the parameter \<open>toString\<close>, host code like a callback: it returns a string or throws,
  and may change the state. When it throws, no \<^verbatim>\<open>Error\<close> is built and the thrown value
  leaves \<^verbatim>\<open>unwrap\<close>.
\<close>

definition Err_unwrap :: "('e \<Rightarrow> (string, 'x, 's) js) \<Rightarrow> ('t, 'e) Result \<Rightarrow> ('t, 'x JsThrown, 's) js" where
  "Err_unwrap toString this =
     (\<lambda>s. case toString (Err_error this) s of
        (Inl x, s') \<Rightarrow> (Inl (HostValue x), s')
      | (Inr converted, s') \<Rightarrow>
          (Inl (ErrorObject (Error (''Called unwrap on Err: '' @ converted))), s'))"

definition Err_unwrapOr :: "('t, 'e) Result \<Rightarrow> 'u \<Rightarrow> JsError + 'u" where
  "Err_unwrapOr this defaultValue = Inr defaultValue"

definition Err_unwrapErr :: "('t, 'e) Result \<Rightarrow> JsError + 'e" where
  "Err_unwrapErr this = Inr (Err_error this)"

definition Err_isOk :: "('t, 'e) Result \<Rightarrow> bool" where
  "Err_isOk this = False"

definition Err_isErr :: "('t, 'e) Result \<Rightarrow> bool" where
  "Err_isErr this = True"

subsection \<open>Method calls on a Result\<close>

text \<open>
  A call \<^verbatim>\<open>result.m(...)\<close> on a value of the union type runs the method of the
  receiver's class.
\<close>

definition Result_map :: "('t, 'e) Result \<Rightarrow> ('t \<Rightarrow> ('u, 'x, 's) js) \<Rightarrow> (('u, 'e) Result, 'x, 's) js" where
  "Result_map result fn = (case result of Ok _ \<Rightarrow> Ok_map result fn | Err _ \<Rightarrow> Err_map result fn)"

definition Result_mapErr :: "('t, 'e) Result \<Rightarrow> ('e \<Rightarrow> ('f, 'x, 's) js) \<Rightarrow> (('t, 'f) Result, 'x, 's) js" where
  "Result_mapErr result fn = (case result of Ok _ \<Rightarrow> Ok_mapErr result fn | Err _ \<Rightarrow> Err_mapErr result fn)"

definition Result_andThen :: "('t, 'e) Result \<Rightarrow> ('t \<Rightarrow> (('u, 'e) Result, 'x, 's) js) \<Rightarrow> (('u, 'e) Result, 'x, 's) js" where
  "Result_andThen result fn = (case result of Ok _ \<Rightarrow> Ok_andThen result fn | Err _ \<Rightarrow> Err_andThen result fn)"

definition Result_orElse :: "('t, 'e) Result \<Rightarrow> ('e \<Rightarrow> (('t, 'f) Result, 'x, 's) js) \<Rightarrow> (('t, 'f) Result, 'x, 's) js" where
  "Result_orElse result fn = (case result of Ok _ \<Rightarrow> Ok_orElse result fn | Err _ \<Rightarrow> Err_orElse result fn)"

definition Result_match :: "('t, 'e) Result \<Rightarrow> ('t \<Rightarrow> ('u, 'x, 's) js) \<Rightarrow> ('e \<Rightarrow> ('u, 'x, 's) js) \<Rightarrow> ('u, 'x, 's) js" where
  "Result_match result matcher_ok matcher_err =
     (case result of Ok _ \<Rightarrow> Ok_match result matcher_ok matcher_err
                   | Err _ \<Rightarrow> Err_match result matcher_ok matcher_err)"

definition Result_unwrap :: "('e \<Rightarrow> (string, 'x, 's) js) \<Rightarrow> ('t, 'e) Result \<Rightarrow> ('t, 'x JsThrown, 's) js" where
  "Result_unwrap toString result =
     (case result of Ok _ \<Rightarrow> Ok_unwrap result | Err _ \<Rightarrow> Err_unwrap toString result)"

definition Result_unwrapOr :: "('t, 'e) Result \<Rightarrow> 't \<Rightarrow> JsError + 't" where
  "Result_unwrapOr result defaultValue =
     (case result of Ok _ \<Rightarrow> Ok_unwrapOr result defaultValue | Err _ \<Rightarrow> Err_unwrapOr result defaultValue)"

definition Result_unwrapErr :: "('t, 'e) Result \<Rightarrow> JsError + 'e" where
  "Result_unwrapErr result = (case result of Ok _ \<Rightarrow> Ok_unwrapErr result | Err _ \<Rightarrow> Err_unwrapErr result)"

definition Result_isOk :: "('t, 'e) Result \<Rightarrow> bool" where
  "Result_isOk result = (case result of Ok _ \<Rightarrow> Ok_isOk result | Err _ \<Rightarrow> Err_isOk result)"

definition Result_isErr :: "('t, 'e) Result \<Rightarrow> bool" where
  "Result_isErr result = (case result of Ok _ \<Rightarrow> Ok_isErr result | Err _ \<Rightarrow> Err_isErr result)"

subsection \<open>The host's string conversion on two kinds of payload\<close>





section \<open>The helpers of \<^verbatim>\<open>src/utility.ts\<close>\<close>

text \<open>
  \<^verbatim>\<open>tryCatch(fn, mapError?)\<close>: the call \<^verbatim>\<open>ok(fn())\<close> stands in the \<^verbatim>\<open>try\<close> block, the
  \<^verbatim>\<open>catch\<close> block builds \<^verbatim>\<open>err(mapError ? mapError(error) : (error as E))\<close>. The caught
  value has the type \<^verbatim>\<open>unknown\<close> of everything that can be thrown, here \<open>'x\<close>; the cast
  \<^verbatim>\<open>error as E\<close> returns the caught value itself, so the error type of the result is
  \<open>'x\<close> too. The optional parameter is an \<open>option\<close>. An exception of the mapper is
  thrown inside the \<^verbatim>\<open>catch\<close> block and leaves \<^verbatim>\<open>tryCatch\<close>.
\<close>

definition tryCatch :: "(unit \<Rightarrow> ('t, 'x, 's) js) \<Rightarrow> ('x \<Rightarrow> ('x, 'x, 's) js) option \<Rightarrow> (('t, 'x) Result, 'x, 's) js" where
  "tryCatch fn mapError =
     js_catch (js_bind (fn ()) (\<lambda>r. js_return (ok r)))
       (\<lambda>error. js_bind (case mapError of Some mapper \<Rightarrow> mapper error | None \<Rightarrow> js_return error)
                   (\<lambda>e. js_return (err e)))"

text \<open>
  \<^verbatim>\<open>all(results)\<close>: the \<^verbatim>\<open>for ... of\<close> loop over the array, with the array \<^verbatim>\<open>values\<close>
  it pushes to as an accumulator. \<^verbatim>\<open>result.error\<close> is read after \<^verbatim>\<open>result.isErr()\<close>
  held, \<^verbatim>\<open>result.value\<close> after it did not.
\<close>

fun all_loop :: "('t, 'e) Result list \<Rightarrow> 't list \<Rightarrow> ('t list, 'e) Result" where
  "all_loop [] values = ok values"
| "all_loop (result # rest) values =
     (if Result_isErr result then err (Err_error result)
      else all_loop rest (values @ [Ok_value result]))"

definition all_results :: "('t, 'e) Result list \<Rightarrow> ('t list, 'e) Result" where
  "all_results results = all_loop results []"

text \<open>
  \<^verbatim>\<open>partition(results)\<close> returns the object \<^verbatim>\<open>{ oks, errs }\<close>; its loop pushes to one
  of two arrays.
\<close>

record ('t, 'e) partitioned =
  oks :: "'t list"
  errs :: "'e list"

fun partition_loop :: "('t, 'e) Result list \<Rightarrow> 't list \<Rightarrow> 'e list \<Rightarrow> ('t, 'e) partitioned" where
  "partition_loop [] oks_acc errs_acc = \<lparr>oks = oks_acc, errs = errs_acc\<rparr>"
| "partition_loop (result # rest) oks_acc errs_acc =
     (if Result_isOk result then partition_loop rest (oks_acc @ [Ok_value result]) errs_acc
      else partition_loop rest oks_acc (errs_acc @ [Err_error result]))"

definition partition_results :: "('t, 'e) Result list \<Rightarrow> ('t, 'e) partitioned" where
  "partition_results results = partition_loop results [] []"

section \<open>The unwrap family\<close>

text \<open>
  C9: \<^verbatim>\<open>Ok(v).unwrapOr(d)\<close> returns exactly \<open>v\<close> and \<^verbatim>\<open>Err(e).unwrapOr(d)\<close> returns
  \<open>d\<close> unchanged, for every fallback \<open>d\<close>; on neither variant does \<^verbatim>\<open>unwrapOr\<close>
  throw: for every receiver and fallback it returns a value.
\<close>

theorem unwrapOr_total:
  "Result_unwrapOr (ok v :: ('t, 'e) Result) d = Inr v \<and>
   Result_unwrapOr (err e :: ('t, 'e) Result) d = Inr d \<and>
   (\<forall>(r :: ('t, 'e) Result) d'. \<exists>y. Result_unwrapOr r d' = Inr y)"
proof (intro conjI allI)
  show "Result_unwrapOr (ok v :: ('t, 'e) Result) d = Inr v"
    by (simp add: Result_unwrapOr_def Ok_unwrapOr_def ok_def)
  show "Result_unwrapOr (err e :: ('t, 'e) Result) d = Inr d"
    by (simp add: Result_unwrapOr_def Err_unwrapOr_def err_def)
  show "\<exists>y. Result_unwrapOr r d' = Inr y" for r :: "('t, 'e) Result" and d'
    by (cases r) (simp_all add: Result_unwrapOr_def Ok_unwrapOr_def Err_unwrapOr_def)
qed


text \<open>What the conversion throws is what \<^verbatim>\<open>Err(e).unwrap()\<close> throws.\<close>

lemma unwrap_conversion_throws:
  "toString e s = (Inl x, s') \<Longrightarrow>
   Result_unwrap toString (err e :: ('t, 'e) Result) s = (Inl (HostValue x), s')"
  by (simp add: Result_unwrap_def Err_unwrap_def err_def)



text \<open>
  C5, as the spec words it: \<^verbatim>\<open>Ok(v).unwrapErr()\<close> throws with the message
  \<^verbatim>\<open>called unwrapErr on a success value\<close>. The source throws another text, so the
  statement fails at \<open>v = 42\<close>.
\<close>

theorem unwrapErr_message_counterexample:
  "Result_unwrapErr (ok (42 :: int) :: (int, string) Result)
     \<noteq> Inl (Error ''called unwrapErr on a success value'')"
  by (simp add: Result_unwrapErr_def Ok_unwrapErr_def ok_def)

text \<open>
  C5, amended: \<^verbatim>\<open>Err(e).unwrapErr()\<close> returns exactly \<open>e\<close>; \<^verbatim>\<open>Ok(v).unwrapErr()\<close>
  returns nothing: it throws an \<^verbatim>\<open>Error\<close> naming the violated precondition with the
  message \<^verbatim>\<open>Called unwrapErr on Ok\<close>.
\<close>

theorem unwrapErr_error_or_throw:
  "Result_unwrapErr (err e :: ('t, 'e) Result) = Inr e \<and>
   Result_unwrapErr (ok v :: ('t, 'e) Result) = Inl (Error ''Called unwrapErr on Ok'') \<and>
   (\<forall>y. Result_unwrapErr (ok v :: ('t, 'e) Result) \<noteq> Inr y)"
  by (simp add: Result_unwrapErr_def Ok_unwrapErr_def Err_unwrapErr_def ok_def err_def)

section \<open>The variant of a Result\<close>

text \<open>
  C10: a Result built by \<^verbatim>\<open>ok\<close> has the fields \<open>ok = true\<close>, \<open>err = false\<close>, one built
  by \<^verbatim>\<open>err\<close> has \<open>ok = false\<close>, \<open>err = true\<close>; every Result is built by one of the
  two, so exactly one of its two fields is true. The free functions \<^verbatim>\<open>isOk\<close> and
  \<^verbatim>\<open>isErr\<close> return the fields, agree with the methods \<^verbatim>\<open>r.isOk()\<close> and
  \<^verbatim>\<open>r.isErr()\<close>, and \<^verbatim>\<open>isOk(r)\<close> is the negation of \<^verbatim>\<open>isErr(r)\<close>.
\<close>

theorem discriminant_exclusive:
  "Result_ok (ok v :: ('t, 'e) Result) = True \<and> Result_err (ok v :: ('t, 'e) Result) = False \<and>
   Result_ok (err e :: ('t, 'e) Result) = False \<and> Result_err (err e :: ('t, 'e) Result) = True \<and>
   ((\<exists>v'. (r :: ('t, 'e) Result) = ok v') \<or> (\<exists>e'. r = err e')) \<and>
   Result_ok r = (\<not> Result_err r) \<and>
   isOk r = Result_ok r \<and> isErr r = Result_err r \<and>
   isOk r = Result_isOk r \<and> isErr r = Result_isErr r \<and>
   isOk r = (\<not> isErr r)"
  by (cases r)
     (simp_all add: ok_def err_def isOk_def isErr_def Result_isOk_def Result_isErr_def
        Ok_isOk_def Ok_isErr_def Err_isOk_def Err_isErr_def)

section \<open>Combinators and their callbacks\<close>

lemma js_bind_return: "js_bind (js_return a) k = k a"
  by (simp add: js_bind_def js_return_def)

text \<open>
  C2: \<^verbatim>\<open>Ok(v).andThen(f)\<close> is the call \<open>f v\<close> itself: \<open>f\<close> runs once on \<open>v\<close>, and what
  it throws or returns, a Result of the same type and no Result around it, is what
  \<^verbatim>\<open>andThen\<close> throws or returns. \<^verbatim>\<open>Err(e).andThen(f)\<close> returns \<^verbatim>\<open>Err(e)\<close> and leaves the
  state as it found it, whatever \<open>f\<close> would throw or change: \<open>f\<close> is not invoked.
\<close>

theorem andThen_short_circuit:
  "Result_andThen (ok v :: ('t, 'e) Result) f = (f v :: (('u, 'e) Result, 'x, 's) js) \<and>
   Result_andThen (err e :: ('t, 'e) Result) f = (js_return (err e) :: (('u, 'e) Result, 'x, 's) js) \<and>
   (\<forall>s. Result_andThen (err e :: ('t, 'e) Result) f s = (Inr (err e :: ('u, 'e) Result), s))"
  by (simp add: Result_andThen_def Ok_andThen_def Err_andThen_def ok_def err_def js_return_def)

text \<open>
  C7: \<^verbatim>\<open>Ok(v).mapErr(f)\<close> returns \<^verbatim>\<open>Ok(v)\<close> and \<^verbatim>\<open>Err(e).map(g)\<close> returns \<^verbatim>\<open>Err(e)\<close>;
  both leave the state as they found it, whatever the callback would throw or change:
  the callback is not invoked.
\<close>

theorem map_mapErr_duality:
  "Result_mapErr (ok v :: ('t, 'e) Result) f = (js_return (ok v) :: (('t, 'f) Result, 'x, 's) js) \<and>
   (\<forall>s. Result_mapErr (ok v :: ('t, 'e) Result) f s = (Inr (ok v :: ('t, 'f) Result), s)) \<and>
   Result_map (err e :: ('t, 'e) Result) g = (js_return (err e) :: (('u, 'e) Result, 'x, 's) js) \<and>
   (\<forall>s. Result_map (err e :: ('t, 'e) Result) g s = (Inr (err e :: ('u, 'e) Result), s))"
  by (simp add: Result_mapErr_def Result_map_def Ok_mapErr_def Err_map_def ok_def err_def
        js_return_def)

text \<open>
  Mapping twice is mapping once with the composed callback, also for callbacks with
  effects: \<open>f\<close> runs first, then \<open>g\<close> on its value, and an exception of either leaves both
  sides.
\<close>

lemma map_map_compose:
  "js_bind (Result_map (Ok v :: ('t, 'e) Result) f) (\<lambda>r. Result_map r g)
     = Result_map (Ok v :: ('t, 'e) Result) (\<lambda>x. js_bind (f x) g)"
  by (rule ext)
     (simp add: Result_map_def Ok_map_def js_bind_def js_return_def
        split: prod.splits sum.splits)

text \<open>
  C8, the functor law: for pure \<open>f\<close> and \<open>g\<close>, \<^verbatim>\<open>Ok(v).map(f).map(g)\<close> equals
  \<^verbatim>\<open>Ok(v).map(x => g(f(x)))\<close>; both return \<^verbatim>\<open>Ok(g(f(v)))\<close>.
\<close>

theorem map_functor_law:
  "js_bind (Result_map (ok v :: ('t, 'e) Result) (pure f)) (\<lambda>r. Result_map r (pure g))
     = (Result_map (ok v :: ('t, 'e) Result) (pure (\<lambda>x. g (f x))) :: (('w, 'e) Result, 'x, 's) js) \<and>
   Result_map (ok v :: ('t, 'e) Result) (pure (\<lambda>x. g (f x)))
     = (js_return (ok (g (f v))) :: (('w, 'e) Result, 'x, 's) js)"
  by (simp add: Result_map_def Ok_map_def pure_def ok_def js_bind_return)

section \<open>Wrapping a throwing call\<close>

text \<open>An exception of the mapper is not caught: it leaves \<^verbatim>\<open>tryCatch\<close>.\<close>

lemma tryCatch_mapper_throws:
  "fn () s = (Inl c, s') \<Longrightarrow> mapper c s' = (Inl x, s'') \<Longrightarrow>
   tryCatch fn (Some mapper) s = (Inl x, s'')"
  by (simp add: tryCatch_def js_catch_def js_bind_def js_return_def)



section \<open>Aggregating a list of Results\<close>

lemma all_loop_every_ok:
  "\<forall>r \<in> set results. isOk r \<Longrightarrow> all_loop results acc = ok (acc @ map Ok_value results)"
proof (induction results arbitrary: acc)
  case Nil
  then show ?case by simp
next
  case (Cons result rest)
  from Cons.prems have "\<not> Result_isErr result"
    by (cases result) (simp_all add: isOk_def Result_isErr_def Ok_isErr_def)
  with Cons show ?case by simp
qed

lemma all_loop_first_err:
  "\<forall>r \<in> set pre. isOk r \<Longrightarrow> all_loop (pre @ err e # rest) acc = err e"
proof (induction pre arbitrary: acc)
  case Nil
  then show ?case
    by (simp add: err_def Result_isErr_def Err_isErr_def)
next
  case (Cons result pre)
  from Cons.prems have "\<not> Result_isErr result"
    by (cases result) (simp_all add: isOk_def Result_isErr_def Ok_isErr_def)
  with Cons show ?case by simp
qed

lemma first_err_split:
  "\<exists>r \<in> set results. isErr r \<Longrightarrow>
   \<exists>pre e rest. results = pre @ err e # rest \<and> (\<forall>r \<in> set pre. isOk r)"
proof (induction results)
  case Nil
  then show ?case by simp
next
  case (Cons result results)
  show ?case
  proof (cases result)
    case (Err e)
    then have "result # results = [] @ err e # results \<and> (\<forall>r \<in> set []. isOk r)"
      by (simp add: err_def)
    then show ?thesis by blast
  next
    case (Ok v)
    with Cons.prems have "\<exists>r \<in> set results. isErr r"
      by (simp add: isErr_def)
    with Cons.IH obtain pre e rest
      where split: "results = pre @ err e # rest" and oks: "\<forall>r \<in> set pre. isOk r"
      by blast
    from Ok split oks
    have "result # results = (result # pre) @ err e # rest \<and> (\<forall>r \<in> set (result # pre). isOk r)"
      by (simp add: isOk_def)
    then show ?thesis by blast
  qed
qed

text \<open>
  C1: if every element of \<open>results\<close> is Ok, \<^verbatim>\<open>all(results)\<close> is Ok of the list of the
  held values in the order of the input. A list with an Err element splits into Ok
  elements, its first Err and the rest, and on such a list \<^verbatim>\<open>all\<close> returns that first
  Err, whatever follows it. On the empty list \<^verbatim>\<open>all\<close> is Ok of the empty list.
\<close>

theorem all_first_error_wins:
  "((\<forall>r \<in> set results. isOk r) \<longrightarrow> all_results results = ok (map Ok_value results)) \<and>
   ((\<forall>r \<in> set pre. isOk r) \<longrightarrow> all_results (pre @ err e # rest) = err e) \<and>
   ((\<exists>r \<in> set results. isErr r) \<longrightarrow>
      (\<exists>pre e rest. results = pre @ err e # rest \<and> (\<forall>r \<in> set pre. isOk r)
         \<and> all_results results = err e)) \<and>
   all_results [] = (ok [] :: ('t list, 'e) Result)"
proof (intro conjI impI)
  assume "\<forall>r \<in> set results. isOk r"
  then show "all_results results = ok (map Ok_value results)"
    by (simp add: all_results_def all_loop_every_ok)
next
  assume "\<forall>r \<in> set pre. isOk r"
  then show "all_results (pre @ err e # rest) = err e"
    by (simp add: all_results_def all_loop_first_err)
next
  assume "\<exists>r \<in> set results. isErr r"
  then obtain pre e rest
    where split: "results = pre @ err e # rest" and oks: "\<forall>r \<in> set pre. isOk r"
    using first_err_split by blast
  then have "all_results results = err e"
    by (simp add: all_results_def all_loop_first_err)
  with split oks
  show "\<exists>pre e rest. results = pre @ err e # rest \<and> (\<forall>r \<in> set pre. isOk r)
          \<and> all_results results = err e"
    by blast
next
  show "all_results [] = (ok [] :: ('t list, 'e) Result)"
    by (simp add: all_results_def)
qed

text \<open>
  The two lists of the library's own description: three Ok elements, and an Ok element
  followed by two Err elements, of which the first is returned.
\<close>

theorem all_first_error_wins_witness:
  "all_results [ok 1, ok 2, ok 3] = (ok [1, 2, 3] :: (int list, string) Result) \<and>
   all_results [ok (1 :: int), err ''e1'', err ''e2''] = err ''e1''"
proof -
  have every: "\<forall>r \<in> set [ok 1, ok 2, ok 3 :: (int, string) Result]. isOk r"
    by (simp add: isOk_def ok_def)
  have pre: "\<forall>r \<in> set [ok 1 :: (int, string) Result]. isOk r"
    by (simp add: isOk_def ok_def)
  from every
    all_first_error_wins [where results = "[ok 1, ok 2, ok 3 :: (int, string) Result]",
      THEN conjunct1]
  have "all_results [ok 1, ok 2, ok 3] = (ok [1, 2, 3] :: (int list, string) Result)"
    by (simp add: ok_def)
  moreover from pre
    all_first_error_wins [where pre = "[ok 1 :: (int, string) Result]" and e = "''e1''"
      and rest = "[err ''e2'']", THEN conjunct2, THEN conjunct1]
  have "all_results [ok (1 :: int), err ''e1'', err ''e2''] = err ''e1''"
    by simp
  ultimately show ?thesis by simp
qed

lemma partition_loop_buckets:
  "partition_loop results oks_acc errs_acc =
     \<lparr>oks = oks_acc @ map Ok_value (filter isOk results),
      errs = errs_acc @ map Err_error (filter isErr results)\<rparr>"
proof (induction results arbitrary: oks_acc errs_acc)
  case Nil
  then show ?case by simp
next
  case (Cons result rest)
  then show ?case
    by (cases result)
       (simp_all add: Result_isOk_def Ok_isOk_def Err_isOk_def isOk_def isErr_def)
qed

lemma length_buckets:
  "length (filter isOk results) + length (filter isErr results) = length results"
proof (induction results)
  case Nil
  then show ?case by simp
next
  case (Cons result rest)
  then show ?case
    by (cases result) (simp_all add: isOk_def isErr_def)
qed

text \<open>
  C3: \<^verbatim>\<open>partition(results)\<close> returns the payloads of all Ok elements in one list and
  the payloads of all Err elements in the other, each in the order of the input (the
  source names the two lists \<open>oks\<close> and \<open>errs\<close>). The loop does not stop early: every
  element lands in one of the lists, and the lists of a concatenated input are the
  concatenated lists. On the empty list both are empty.
\<close>

theorem partition_all_buckets:
  "oks (partition_results results) = map Ok_value (filter isOk results) \<and>
   errs (partition_results results) = map Err_error (filter isErr results) \<and>
   length (oks (partition_results results)) + length (errs (partition_results results))
     = length results \<and>
   oks (partition_results (results @ others))
     = oks (partition_results results) @ oks (partition_results others) \<and>
   errs (partition_results (results @ others))
     = errs (partition_results results) @ errs (partition_results others) \<and>
   partition_results [] = (\<lparr>oks = [], errs = []\<rparr> :: ('t, 'e) partitioned)"
  by (simp add: partition_results_def partition_loop_buckets length_buckets)

text \<open>The mixed list of the library's own description: nothing is dropped, each bucket keeps its order.\<close>

lemma partition_mixed_example:
  "partition_results [ok (1 :: int), err ''a'', ok 2, err ''b'']
     = \<lparr>oks = [1, 2], errs = [''a'', ''b'']\<rparr>"
  by (simp add: partition_results_def ok_def err_def Result_isOk_def Ok_isOk_def Err_isOk_def)

end
